theory Spec2Isabelle
  imports Complex_Main
begin

section \<open>Common types\<close>

text \<open>
  C++ \<open>double\<close> values are only stored, copied and compared with zero by the code modelled
  here, so they are represented by \<open>real\<close>. Eigen vectors and matrices are lists.
\<close>

type_synonym double = real
type_synonym VectorXd = "double list"
type_synonym MatrixXd = "double list list"

text \<open>
  Exceptions. \<open>RuntimeError\<close> is what the \<open>error(condition, message...)\<close> macro of
  \<open>Reaktoro/Common/Exception.hpp\<close> raises; \<open>EigenAssertion\<close> is the failure of a block
  expression such as \<open>x.head(n)\<close> whose size does not fit; \<open>FileNotFound\<close> is raised by the
  embedded file system when a path is absent; \<open>Thrown\<close> is any exception that leaves one of
  the collaborators whose code is not part of the sources (the property model behind
  EquilibriumSetup, the Optima solver, the parser of the database).
\<close>

datatype exn =
    RuntimeError string
  | EigenAssertion
  | FileNotFound string
  | Thrown string

definition error :: "bool \<Rightarrow> string \<Rightarrow> exn option" where
  "error condition message = (if condition then Some (RuntimeError message) else None)"

section \<open>The equilibrium solver: data\<close>

record Species =
  species_name :: string

record ChemicalSystem =
  species :: "Species list"

record OutputOptions =
  active :: bool
  xprefix :: string
  xnames :: "string list"

record OptimaOptions =
  optima_output :: OutputOptions

record EquilibriumOptions =
  epsilon :: double
  optima :: OptimaOptions

record OptimaDims =
  dims_x :: nat
  dims_p :: nat
  dims_be :: nat

text \<open>
  \<open>Optima::State\<close>: its dimensions, the primal iterate \<open>x\<close>, and the multipliers \<open>y\<close>, which
  stand for every member of the iterate that the equilibrium solver never reads or writes.
\<close>

record OptimaState =
  state_dims :: OptimaDims
  state_x :: VectorXd
  state_y :: VectorXd

record OptimaResult =
  opt_succeeded :: bool
  opt_iterations :: nat

record EquilibriumResult =
  result_optima :: OptimaResult

record ObjectiveEval =
  eval_fxx :: bool
  eval_fxp :: bool

record ObjectiveOptions =
  obj_eval :: ObjectiveEval

record ObjectiveResult =
  obj_f :: double
  obj_fx :: VectorXd
  obj_fxx :: MatrixXd
  obj_fxp :: MatrixXd
  obj_succeeded :: bool

record ConstraintEval =
  eval_ddx :: bool
  eval_ddp :: bool

record ConstraintOptions =
  con_eval :: ConstraintEval

record ConstraintResult =
  con_val :: VectorXd
  con_ddx :: MatrixXd
  con_ddp :: MatrixXd
  con_succeeded :: bool

text \<open>
  A callback of \<open>Optima::Problem\<close> receives a reference to the result it fills in. The model
  returns the exception that left the callback, if any, together with the referenced result
  as the callback left it.
\<close>

type_synonym ObjectiveFunction =
  "ObjectiveResult \<Rightarrow> VectorXd \<Rightarrow> VectorXd \<Rightarrow> ObjectiveOptions \<Rightarrow> exn option \<times> ObjectiveResult"

type_synonym ConstraintFunction =
  "ConstraintResult \<Rightarrow> VectorXd \<Rightarrow> VectorXd \<Rightarrow> ConstraintOptions \<Rightarrow> exn option \<times> ConstraintResult"

record OptimaProblem =
  problem_dims :: OptimaDims
  problem_f :: "ObjectiveFunction option"
  problem_v :: "ConstraintFunction option"
  Aex :: MatrixXd
  Aep :: MatrixXd
  be :: VectorXd
  xlower :: VectorXd
  xupper :: VectorXd

text \<open>
  Modelled from the spec: \<open>Optima::State(dims)\<close>, the constructor of a fresh iterate, belongs
  to the Optima library and is not in the sources. The spec calls its content "a neutral
  default for any auxiliary variables": vectors of zeros of the given dimensions.
\<close>

definition OptimaState_new :: "OptimaDims \<Rightarrow> OptimaState" where
  "OptimaState_new d =
     \<lparr>state_dims = d, state_x = replicate (dims_x d) 0, state_y = replicate (dims_be d) 0\<rparr>"

definition OptimaDims_new :: OptimaDims where
  "OptimaDims_new = \<lparr>dims_x = 0, dims_p = 0, dims_be = 0\<rparr>"

text \<open>\<open>Optima::Problem(dims)\<close>: a problem of the given dimensions with nothing set yet.\<close>

definition OptimaProblem_new :: "OptimaDims \<Rightarrow> OptimaProblem" where
  "OptimaProblem_new d =
     \<lparr>problem_dims = d, problem_f = None, problem_v = None, Aex = [], Aep = [], be = [],
      xlower = [], xupper = []\<rparr>"

record ChemicalStateEquilibrium =
  optimaState :: OptimaState

record ChemicalState =
  temperature :: double
  pressure :: double
  speciesAmounts :: VectorXd
  equilibrium :: ChemicalStateEquilibrium

text \<open>
  Modelled from the spec: the class EquilibriumSpecs (\<open>Reaktoro/Equilibrium/EquilibriumSpecs\<close>)
  is not in the sources. According to the spec a Specification is built from a ChemicalSystem
  and holds an ordered list of control variables and an ordered list of constraint equations;
  \<open>addControlVariable(name)\<close> registers a control variable, and temperature and pressure are
  the built-in control variables.
\<close>

record EquilibriumSpecs =
  specs_system :: ChemicalSystem
  controlVariables :: "string list"
  constraintEquations :: "string list"

definition EquilibriumSpecs_new :: "ChemicalSystem \<Rightarrow> EquilibriumSpecs" where
  "EquilibriumSpecs_new sys =
     \<lparr>specs_system = sys, controlVariables = [], constraintEquations = []\<rparr>"

definition addControlVariable :: "string \<Rightarrow> EquilibriumSpecs \<Rightarrow> EquilibriumSpecs" where
  "addControlVariable v s =
     (if v \<in> set (controlVariables s) then s
      else s\<lparr>controlVariables := controlVariables s @ [v]\<rparr>)"

text \<open>
  Modelled from the spec: \<open>EquilibriumSpecs::temperature()\<close> and
  \<open>EquilibriumSpecs::pressure()\<close> are not in the sources. They register the built-in control
  variables, under the names \<open>T\<close> and \<open>P\<close>. A variable is registered once, so the two
  calls have the same outcome on a specification that has its built-ins from the start.
\<close>

definition specs_temperature :: "EquilibriumSpecs \<Rightarrow> EquilibriumSpecs" where
  "specs_temperature s = addControlVariable ''T'' s"

definition specs_pressure :: "EquilibriumSpecs \<Rightarrow> EquilibriumSpecs" where
  "specs_pressure s = addControlVariable ''P'' s"

record EquilibriumDims =
  Nn :: nat
  Nx :: nat
  Np :: nat
  Nc :: nat

text \<open>
  Modelled from the spec: the class EquilibriumConditions is not in the sources. According to
  the spec it is bound to one Specification and stores a numeric value for declared control
  variables; \<open>set(name, value)\<close> fails with \<open>UnknownControlVariable\<close> when the name was not
  declared; the setters for temperature and pressure are sugar over \<open>set\<close>; \<open>params()\<close>
  returns the values in the declared order and fails with \<open>MissingCondition\<close> on an entry
  that has no value.
\<close>

record EquilibriumConditions =
  conditions_specs :: EquilibriumSpecs
  conditions_values :: "(string \<times> double) list"

definition EquilibriumConditions_new :: "EquilibriumSpecs \<Rightarrow> EquilibriumConditions" where
  "EquilibriumConditions_new s = \<lparr>conditions_specs = s, conditions_values = []\<rparr>"

definition conditions_set ::
  "string \<Rightarrow> double \<Rightarrow> EquilibriumConditions \<Rightarrow> exn + EquilibriumConditions" where
  "conditions_set v d c =
     (if v \<in> set (controlVariables (conditions_specs c))
      then Inr (c\<lparr>conditions_values := (v, d) # filter (\<lambda>e. fst e \<noteq> v) (conditions_values c)\<rparr>)
      else Inl (Thrown ''UnknownControlVariable''))"

definition conditions_temperature ::
  "double \<Rightarrow> EquilibriumConditions \<Rightarrow> exn + EquilibriumConditions" where
  "conditions_temperature d c = conditions_set ''T'' d c"

definition conditions_pressure ::
  "double \<Rightarrow> EquilibriumConditions \<Rightarrow> exn + EquilibriumConditions" where
  "conditions_pressure d c = conditions_set ''P'' d c"

fun lookup_values :: "(string \<times> double) list \<Rightarrow> string list \<Rightarrow> exn + VectorXd" where
  "lookup_values vs [] = Inr []"
| "lookup_values vs (v # rest) =
     (case map_of vs v of
        None \<Rightarrow> Inl (Thrown ''MissingCondition'')
      | Some d \<Rightarrow> (case lookup_values vs rest of Inl e \<Rightarrow> Inl e | Inr ds \<Rightarrow> Inr (d # ds)))"

definition conditions_params :: "EquilibriumConditions \<Rightarrow> exn + VectorXd" where
  "conditions_params c =
     lookup_values (conditions_values c) (controlVariables (conditions_specs c))"

text \<open>
  Modelled from the spec: the class EquilibriumRestrictions is not in the sources. According
  to the spec it is a set of per-species restrictions, and a new object imposes none.
\<close>

datatype Restriction = CannotIncrease | CannotDecrease | CannotReactBeyond double

record EquilibriumRestrictions =
  restrictions_system :: ChemicalSystem
  restricted :: "(nat \<times> Restriction) list"

definition EquilibriumRestrictions_new :: "ChemicalSystem \<Rightarrow> EquilibriumRestrictions" where
  "EquilibriumRestrictions_new sys = \<lparr>restrictions_system = sys, restricted = []\<rparr>"

text \<open>
  The class EquilibriumSetup is not in the sources: the solver only calls it. An object of the
  class is represented by the options it was given and by its methods. The evaluation methods
  reach the thermodynamic property model and may raise; they take the primal vector, the
  parameter vector of the optimizer, and the parameters of the conditions.
\<close>

record EquilibriumSetup =
  setup_options :: EquilibriumOptions
  evalObjectiveValue :: "VectorXd \<Rightarrow> VectorXd \<Rightarrow> VectorXd \<Rightarrow> exn + double"
  evalObjectiveGradX :: "VectorXd \<Rightarrow> VectorXd \<Rightarrow> VectorXd \<Rightarrow> exn + VectorXd"
  evalObjectiveHessianX :: "VectorXd \<Rightarrow> VectorXd \<Rightarrow> VectorXd \<Rightarrow> exn + MatrixXd"
  evalObjectiveHessianP :: "VectorXd \<Rightarrow> VectorXd \<Rightarrow> VectorXd \<Rightarrow> exn + MatrixXd"
  evalEquationConstraints :: "VectorXd \<Rightarrow> VectorXd \<Rightarrow> VectorXd \<Rightarrow> exn + VectorXd"
  evalEquationConstraintsGradX :: "VectorXd \<Rightarrow> VectorXd \<Rightarrow> VectorXd \<Rightarrow> exn + MatrixXd"
  evalEquationConstraintsGradP :: "VectorXd \<Rightarrow> VectorXd \<Rightarrow> VectorXd \<Rightarrow> exn + MatrixXd"
  assembleMatrixAex :: MatrixXd
  assembleMatrixAep :: MatrixXd
  assembleVectorBe :: "EquilibriumConditions \<Rightarrow> ChemicalState \<Rightarrow> VectorXd"
  assembleLowerBoundsVector :: "EquilibriumRestrictions \<Rightarrow> ChemicalState \<Rightarrow> VectorXd"
  assembleUpperBoundsVector :: "EquilibriumRestrictions \<Rightarrow> ChemicalState \<Rightarrow> VectorXd"

text \<open>\<open>EquilibriumSetup::setOptions\<close> keeps the options it is given.\<close>

definition setup_setOptions :: "EquilibriumOptions \<Rightarrow> EquilibriumSetup \<Rightarrow> EquilibriumSetup" where
  "setup_setOptions opts s = s\<lparr>setup_options := opts\<rparr>"

text \<open>
  \<open>Optima::Solver::solve(problem, state)\<close> updates the state it is given and returns a result;
  the solver object is represented by that method.
\<close>

type_synonym OptimaSolver =
  "OptimaProblem \<Rightarrow> OptimaState \<Rightarrow> exn + OptimaResult \<times> OptimaState"

text \<open>
  The members of \<open>EquilibriumSolver::Impl\<close>. The member \<open>setup\<close> is called \<open>eqsetup\<close> here.
\<close>

record Impl =
  system :: ChemicalSystem
  specs :: EquilibriumSpecs
  dims :: EquilibriumDims
  eqsetup :: EquilibriumSetup
  options :: EquilibriumOptions
  n0 :: VectorXd
  optdims :: OptimaDims
  optproblem :: OptimaProblem
  optstate :: OptimaState
  optsolver :: OptimaSolver

section \<open>The equilibrium solver: operations\<close>

text \<open>
  \<open>defaultEquilibriumSpecs\<close>: the specifications of the classic Gibbs energy minimization
  problem.
\<close>

definition defaultEquilibriumSpecs :: "ChemicalSystem \<Rightarrow> EquilibriumSpecs" where
  "defaultEquilibriumSpecs sys =
     (let specs0 = EquilibriumSpecs_new sys;
          specs1 = specs_temperature specs0;
          specs2 = specs_pressure specs1
      in specs2)"

text \<open>
  \<open>EquilibriumSolver::Impl::setOptions\<close>. The method updates the object in place, so the model
  returns the exception raised, if any, together with the object as the method left it.
\<close>

definition setOptions :: "Impl \<Rightarrow> EquilibriumOptions \<Rightarrow> exn option \<times> Impl" where
  "setOptions impl opts =
     (let impl1 = impl\<lparr>options := opts\<rparr>;
          impl2 = impl1\<lparr>eqsetup := setup_setOptions (options impl1) (eqsetup impl1)\<rparr>
      in case error (epsilon (options impl2) \<le> 0)
                ''EquilibriumOptions::epsilon cannot be zero or negative.'' of
           Some e \<Rightarrow> (Some e, impl2)
         | None \<Rightarrow>
             if active (optima_output (optima (options impl2))) then
               let out1 = (optima_output (optima (options impl2)))\<lparr>xprefix := ''n''\<rparr>;
                   out2 = out1\<lparr>xnames :=
                            foldl (\<lambda>names sp. names @ [species_name sp]) (xnames out1)
                              (species (system impl2))\<rparr>
               in (None, impl2\<lparr>options :=
                            (options impl2)\<lparr>optima := (optima (options impl2))\<lparr>optima_output := out2\<rparr>\<rparr>\<rparr>)
             else (None, impl2))"

text \<open>
  The objective function handed to the optimizer (the first closure of \<open>updateOptProblem\<close>).
  It captures the problem setup and the parameters of the conditions. An exception of an
  evaluation method leaves the closure at once, with the result as written so far.
\<close>

definition objective :: "EquilibriumSetup \<Rightarrow> VectorXd \<Rightarrow> ObjectiveFunction" where
  "objective S params res x p opts =
     (case evalObjectiveValue S x p params of
        Inl e \<Rightarrow> (Some e, res)
      | Inr v \<Rightarrow>
          let res1 = res\<lparr>obj_f := v\<rparr> in
          case evalObjectiveGradX S x p params of
            Inl e \<Rightarrow> (Some e, res1)
          | Inr g \<Rightarrow>
              let res2 = res1\<lparr>obj_fx := g\<rparr> in
              case (if eval_fxx (obj_eval opts)
                    then map_sum id (\<lambda>h. res2\<lparr>obj_fxx := h\<rparr>) (evalObjectiveHessianX S x p params)
                    else Inr res2) of
                Inl e \<Rightarrow> (Some e, res2)
              | Inr res3 \<Rightarrow>
                  case (if eval_fxp (obj_eval opts)
                        then map_sum id (\<lambda>h. res3\<lparr>obj_fxp := h\<rparr>) (evalObjectiveHessianP S x p params)
                        else Inr res3) of
                    Inl e \<Rightarrow> (Some e, res3)
                  | Inr res4 \<Rightarrow> (None, res4\<lparr>obj_succeeded := True\<rparr>))"

text \<open>The external constraint function (the second closure of \<open>updateOptProblem\<close>).\<close>

definition constraint :: "EquilibriumSetup \<Rightarrow> VectorXd \<Rightarrow> ConstraintFunction" where
  "constraint S params res x p opts =
     (case evalEquationConstraints S x p params of
        Inl e \<Rightarrow> (Some e, res)
      | Inr v \<Rightarrow>
          let res1 = res\<lparr>con_val := v\<rparr> in
          case (if eval_ddx (con_eval opts)
                then map_sum id (\<lambda>j. res1\<lparr>con_ddx := j\<rparr>) (evalEquationConstraintsGradX S x p params)
                else Inr res1) of
            Inl e \<Rightarrow> (Some e, res1)
          | Inr res2 \<Rightarrow>
              case (if eval_ddp (con_eval opts)
                    then map_sum id (\<lambda>j. res2\<lparr>con_ddp := j\<rparr>) (evalEquationConstraintsGradP S x p params)
                    else Inr res2) of
                Inl e \<Rightarrow> (Some e, res2)
              | Inr res3 \<Rightarrow> (None, res3\<lparr>con_succeeded := True\<rparr>))"

text \<open>\<open>EquilibriumSolver::Impl::updateOptProblem\<close>.\<close>

definition updateOptProblem ::
  "Impl \<Rightarrow> ChemicalState \<Rightarrow> EquilibriumConditions \<Rightarrow> EquilibriumRestrictions \<Rightarrow> exn + Impl" where
  "updateOptProblem impl state0 conditions restrictions =
     (case conditions_params conditions of
        Inl e \<Rightarrow> Inl e
      | Inr params \<Rightarrow>
          let impl1 = impl\<lparr>optdims := OptimaDims_new\<rparr>;
              impl2 = impl1\<lparr>optdims := (optdims impl1)\<lparr>dims_x := Nx (dims impl1)\<rparr>\<rparr>;
              impl3 = impl2\<lparr>optdims := (optdims impl2)\<lparr>dims_p := Np (dims impl2)\<rparr>\<rparr>;
              impl4 = impl3\<lparr>optdims := (optdims impl3)\<lparr>dims_be := Nc (dims impl3)\<rparr>\<rparr>;
              S = eqsetup impl4;
              problem = (OptimaProblem_new (optdims impl4))
                \<lparr>problem_f := Some (objective S params),
                 problem_v := Some (constraint S params),
                 Aex := assembleMatrixAex S,
                 Aep := assembleMatrixAep S,
                 be := assembleVectorBe S conditions state0,
                 xlower := assembleLowerBoundsVector S restrictions state0,
                 xupper := assembleUpperBoundsVector S restrictions state0\<rparr>
          in Inr (impl4\<lparr>optproblem := problem\<rparr>))"

text \<open>
  Eigen's \<open>x.head(n)\<close>, read and assigned. The block must fit in the vector and an assigned
  vector must have the size of the block; Eigen asserts both.
\<close>

definition head :: "nat \<Rightarrow> VectorXd \<Rightarrow> exn + VectorXd" where
  "head n xs = (if n \<le> length xs then Inr (take n xs) else Inl EigenAssertion)"

definition assign_head :: "nat \<Rightarrow> VectorXd \<Rightarrow> VectorXd \<Rightarrow> exn + VectorXd" where
  "assign_head n xs v =
     (if n \<le> length xs \<and> length v = n then Inr (v @ drop n xs) else Inl EigenAssertion)"

text \<open>\<open>EquilibriumSolver::Impl::updateOptState\<close>.\<close>

definition updateOptState :: "Impl \<Rightarrow> ChemicalState \<Rightarrow> exn + Impl" where
  "updateOptState impl state0 =
     (let impl1 = impl\<lparr>optstate := optimaState (equilibrium state0)\<rparr>;
          impl2 = (if dims_x (state_dims (optstate impl1)) \<noteq> Nx (dims impl1)
                   then impl1\<lparr>optstate := OptimaState_new (optdims impl1)\<rparr>
                   else impl1)
      in case assign_head (Nn (dims impl2)) (state_x (optstate impl2)) (speciesAmounts state0) of
           Inl e \<Rightarrow> Inl e
         | Inr xs \<Rightarrow> Inr (impl2\<lparr>optstate := (optstate impl2)\<lparr>state_x := xs\<rparr>\<rparr>))"

text \<open>The iterate that \<open>updateOptState\<close> leaves in the solver: the optimization starts there.\<close>

definition starting_iterate :: "Impl \<Rightarrow> ChemicalState \<Rightarrow> exn + OptimaState" where
  "starting_iterate impl state0 =
     (case updateOptState impl state0 of Inl e \<Rightarrow> Inl e | Inr impl1 \<Rightarrow> Inr (optstate impl1))"

text \<open>\<open>EquilibriumSolver::Impl::updateChemicalState\<close>.\<close>

definition updateChemicalState :: "Impl \<Rightarrow> ChemicalState \<Rightarrow> exn + ChemicalState" where
  "updateChemicalState impl state =
     (case head (Nn (dims impl)) (state_x (optstate impl)) of
        Inl e \<Rightarrow> Inl e
      | Inr n \<Rightarrow>
          let state1 = state\<lparr>speciesAmounts := n\<rparr>
          in Inr (state1\<lparr>equilibrium := (equilibrium state1)\<lparr>optimaState := optstate impl\<rparr>\<rparr>))"

text \<open>
  \<open>EquilibriumSolver::Impl::solve\<close> with conditions and restrictions. A call that returns
  gives the result, the chemical state and the solver as the call left them. The chemical
  state is written by the last step only, so a call that raises leaves it as it was.
\<close>

definition solve ::
  "Impl \<Rightarrow> ChemicalState \<Rightarrow> EquilibriumConditions \<Rightarrow> EquilibriumRestrictions
     \<Rightarrow> exn + EquilibriumResult \<times> ChemicalState \<times> Impl" where
  "solve impl state0 conditions restrictions =
     (case updateOptProblem impl state0 conditions restrictions of
        Inl e \<Rightarrow> Inl e
      | Inr impl1 \<Rightarrow>
          case updateOptState impl1 state0 of
            Inl e \<Rightarrow> Inl e
          | Inr impl2 \<Rightarrow>
              case optsolver impl2 (optproblem impl2) (optstate impl2) of
                Inl e \<Rightarrow> Inl e
              | Inr (r, s) \<Rightarrow>
                  let impl3 = impl2\<lparr>optstate := s\<rparr>;
                      eqresult = \<lparr>result_optima = r\<rparr>
                  in case updateChemicalState impl3 state0 of
                       Inl e \<Rightarrow> Inl e
                     | Inr state1 \<Rightarrow> Inr (eqresult, state1, impl3))"

text \<open>The overload of \<open>solve\<close> with conditions only.\<close>

definition solve_conditions ::
  "Impl \<Rightarrow> ChemicalState \<Rightarrow> EquilibriumConditions
     \<Rightarrow> exn + EquilibriumResult \<times> ChemicalState \<times> Impl" where
  "solve_conditions impl state0 conditions =
     (let restrictions = EquilibriumRestrictions_new (system impl)
      in solve impl state0 conditions restrictions)"

text \<open>The overload of \<open>solve\<close> with the chemical state only.\<close>

definition solve_state ::
  "Impl \<Rightarrow> ChemicalState \<Rightarrow> exn + EquilibriumResult \<times> ChemicalState \<times> Impl" where
  "solve_state impl state0 =
     (let conditions = EquilibriumConditions_new (specs impl)
      in case conditions_temperature (temperature state0) conditions of
           Inl e \<Rightarrow> Inl e
         | Inr conditions1 \<Rightarrow>
             case conditions_pressure (pressure state0) conditions1 of
               Inl e \<Rightarrow> Inl e
             | Inr conditions2 \<Rightarrow> solve_conditions impl state0 conditions2)"

text \<open>
  The constructor of \<open>Impl\<close>. The constructors of EquilibriumDims and EquilibriumSetup, the
  default options and the Optima solver object are not in the sources and are taken as given.
\<close>

record Collaborators =
  EquilibriumDims_new :: "EquilibriumSpecs \<Rightarrow> exn + EquilibriumDims"
  EquilibriumSetup_new :: "EquilibriumSpecs \<Rightarrow> EquilibriumSetup"
  EquilibriumOptions_new :: EquilibriumOptions
  OptimaSolver_new :: OptimaSolver

definition Impl_new :: "Collaborators \<Rightarrow> EquilibriumSpecs \<Rightarrow> exn + Impl" where
  "Impl_new K specs0 =
     (case EquilibriumDims_new K specs0 of
        Inl e \<Rightarrow> Inl e
      | Inr dims0 \<Rightarrow>
          let impl = \<lparr>system = specs_system specs0, specs = specs0, dims = dims0,
                      eqsetup = EquilibriumSetup_new K specs0,
                      options = EquilibriumOptions_new K, n0 = [],
                      optdims = OptimaDims_new,
                      optproblem = OptimaProblem_new OptimaDims_new,
                      optstate = OptimaState_new OptimaDims_new,
                      optsolver = OptimaSolver_new K\<rparr>
          in case setOptions impl (options impl) of
               (Some e, impl1) \<Rightarrow> Inl e
             | (None, impl1) \<Rightarrow> Inr impl1)"

text \<open>The two constructors of \<open>EquilibriumSolver\<close>.\<close>

definition EquilibriumSolver_system :: "Collaborators \<Rightarrow> ChemicalSystem \<Rightarrow> exn + Impl" where
  "EquilibriumSolver_system K sys = Impl_new K (defaultEquilibriumSpecs sys)"

definition EquilibriumSolver_specs :: "Collaborators \<Rightarrow> EquilibriumSpecs \<Rightarrow> exn + Impl" where
  "EquilibriumSolver_specs K specs0 = Impl_new K specs0"

section \<open>The embedded NASA databases\<close>

text \<open>
  The helper \<open>oneof\<close> of \<open>Reaktoro/Common/Algorithms.hpp\<close> is not in the sources; it tells
  whether its first argument equals one of the others.
\<close>

fun oneof :: "'a \<Rightarrow> 'a list \<Rightarrow> bool" where
  "oneof a [] = False"
| "oneof a (a0 # as) = (a = a0 \<or> oneof a as)"

text \<open>
  The embedded file system of CMakeRC is a table from paths to contents, fixed when the
  library is built; \<open>open\<close> raises when the path is not in the table.
\<close>

type_synonym embedded_filesystem = "string \<Rightarrow> string option"

definition fs_open :: "embedded_filesystem \<Rightarrow> string \<Rightarrow> exn + string" where
  "fs_open fs path = (case fs path of None \<Rightarrow> Inl (FileNotFound path) | Some contents \<Rightarrow> Inr contents)"

definition unsupported_name_message :: "string \<Rightarrow> string" where
  "unsupported_name_message name =
     ''Could not load embedded NASA database file with name `'' @ name @ ''`. '' @
     ''The currently supported names are: \<newline>'' @
     ''    - cea    \<newline>'' @
     ''    - cea-improved \<newline>'' @
     ''    - burcat \<newline>'' @
     []"

definition getNasaDatabaseContent :: "embedded_filesystem \<Rightarrow> string \<Rightarrow> exn + string" where
  "getNasaDatabaseContent fs name =
     (case error (\<not> oneof name [''cea'', ''cea-improved'', ''burcat''])
             (unsupported_name_message name) of
        Some e \<Rightarrow> Inl e
      | None \<Rightarrow> fs_open fs (''databases/nasa/'' @ name @ ''.dat''))"

text \<open>
  The parsing helpers of \<open>NasaUtils\<close> and the operations of the database class are not in the
  sources and are taken as given: \<open>'n\<close> is the type of a parsed NASA species, \<open>'s\<close> the type
  of a species of the database, \<open>'d\<close> the type of the database.
\<close>

record ('n, 's, 'd) NasaUtils =
  createTextLines :: "string \<Rightarrow> string list"
  createNasaSpeciesVector :: "string list \<Rightarrow> exn + 'n list"
  convertSpecies :: "'n \<Rightarrow> exn + 's"
  NasaDatabase_new :: 'd
  addSpecies :: "'s \<Rightarrow> 'd \<Rightarrow> 'd"

fun addAllSpecies :: "('n, 's, 'd) NasaUtils \<Rightarrow> 'd \<Rightarrow> 'n list \<Rightarrow> exn + 'd" where
  "addAllSpecies U db [] = Inr db"
| "addAllSpecies U db (sp # rest) =
     (case convertSpecies U sp of
        Inl e \<Rightarrow> Inl e
      | Inr s \<Rightarrow> addAllSpecies U (addSpecies U s db) rest)"

definition fromStream :: "('n, 's, 'd) NasaUtils \<Rightarrow> string \<Rightarrow> exn + 'd" where
  "fromStream U stream =
     (let lines = createTextLines U stream
      in case createNasaSpeciesVector U lines of
           Inl e \<Rightarrow> Inl e
         | Inr specieslist \<Rightarrow> addAllSpecies U (NasaDatabase_new U) specieslist)"

definition withName :: "('n, 's, 'd) NasaUtils \<Rightarrow> embedded_filesystem \<Rightarrow> string \<Rightarrow> exn + 'd" where
  "withName U fs name =
     (case getNasaDatabaseContent fs name of
        Inl e \<Rightarrow> Inl e
      | Inr content \<Rightarrow> fromStream U content)"

section \<open>A small instance\<close>

text \<open>
  A system of three species and a solver for it, used to run the definitions above on
  concrete values. The property model of the instance cannot evaluate a composition with a
  negative amount. The dimensions have one primal variable beyond the species amounts. The
  optimizer of the instance evaluates the objective once at the iterate it is given, halves
  the iterate and reports that it has not converged.
\<close>

definition demo_system :: ChemicalSystem where
  "demo_system =
     \<lparr>species = [\<lparr>species_name = ''H2O''\<rparr>, \<lparr>species_name = ''H+''\<rparr>, \<lparr>species_name = ''OH-''\<rparr>]\<rparr>"

definition demo_options :: "double \<Rightarrow> bool \<Rightarrow> EquilibriumOptions" where
  "demo_options eps act =
     \<lparr>epsilon = eps, optima = \<lparr>optima_output = \<lparr>active = act, xprefix = ''x'', xnames = []\<rparr>\<rparr>\<rparr>"

definition demo_dims :: EquilibriumDims where
  "demo_dims = \<lparr>Nn = 3, Nx = 4, Np = 2, Nc = 1\<rparr>"

definition nonphysical :: "VectorXd \<Rightarrow> bool" where
  "nonphysical x = list_ex (\<lambda>a. a < 0) x"

definition demo_setup :: EquilibriumSetup where
  "demo_setup =
     \<lparr>setup_options = demo_options 1 False,
      evalObjectiveValue = (\<lambda>x p w.
        if nonphysical x then Inl (Thrown ''PropertyEvaluationFailed'') else Inr (sum_list x)),
      evalObjectiveGradX = (\<lambda>x p w.
        if nonphysical x then Inl (Thrown ''PropertyEvaluationFailed'') else Inr (map (\<lambda>a. 1) x)),
      evalObjectiveHessianX = (\<lambda>x p w. Inr []),
      evalObjectiveHessianP = (\<lambda>x p w. Inr []),
      evalEquationConstraints = (\<lambda>x p w.
        if nonphysical x then Inl (Thrown ''PropertyEvaluationFailed'') else Inr []),
      evalEquationConstraintsGradX = (\<lambda>x p w. Inr []),
      evalEquationConstraintsGradP = (\<lambda>x p w. Inr []),
      assembleMatrixAex = [[1, 1, 1, 0]],
      assembleMatrixAep = [[0, 0]],
      assembleVectorBe = (\<lambda>c st. [sum_list (speciesAmounts st)]),
      assembleLowerBoundsVector = (\<lambda>r st. [0, 0, 0, 0]),
      assembleUpperBoundsVector = (\<lambda>r st. [1000, 1000, 1000, 1000])\<rparr>"

definition demo_objective_options :: ObjectiveOptions where
  "demo_objective_options = \<lparr>obj_eval = \<lparr>eval_fxx = True, eval_fxp = False\<rparr>\<rparr>"

definition demo_objective_result :: ObjectiveResult where
  "demo_objective_result =
     \<lparr>obj_f = 0, obj_fx = [], obj_fxx = [], obj_fxp = [], obj_succeeded = False\<rparr>"

definition demo_optsolver :: OptimaSolver where
  "demo_optsolver problem state =
     (case problem_f problem of
        None \<Rightarrow> Inl (Thrown ''bad_function_call'')
      | Some f \<Rightarrow>
          (case f demo_objective_result (state_x state) [] demo_objective_options of
             (Some e, res) \<Rightarrow> Inl e
           | (None, res) \<Rightarrow>
               Inr (\<lparr>opt_succeeded = False, opt_iterations = 1\<rparr>,
                    state\<lparr>state_x := map (\<lambda>a. a / 2) (state_x state)\<rparr>)))"

definition demo_collaborators :: Collaborators where
  "demo_collaborators =
     \<lparr>EquilibriumDims_new = (\<lambda>s. Inr demo_dims),
      EquilibriumSetup_new = (\<lambda>s. demo_setup),
      EquilibriumOptions_new = demo_options 1 False,
      OptimaSolver_new = demo_optsolver\<rparr>"

definition demo_impl :: Impl where
  "demo_impl =
     \<lparr>system = demo_system, specs = defaultEquilibriumSpecs demo_system, dims = demo_dims,
      eqsetup = demo_setup, options = demo_options 1 False, n0 = [],
      optdims = OptimaDims_new, optproblem = OptimaProblem_new OptimaDims_new,
      optstate = OptimaState_new OptimaDims_new, optsolver = demo_optsolver\<rparr>"

text \<open>A chemical state that no solver has touched, and one that keeps an iterate.\<close>

definition demo_state :: ChemicalState where
  "demo_state =
     \<lparr>temperature = 300, pressure = 100000, speciesAmounts = [50, 2, 4],
      equilibrium = \<lparr>optimaState = OptimaState_new OptimaDims_new\<rparr>\<rparr>"

definition demo_state_warm :: ChemicalState where
  "demo_state_warm =
     \<lparr>temperature = 300, pressure = 100000, speciesAmounts = [10, 20, 30],
      equilibrium = \<lparr>optimaState =
        \<lparr>state_dims = \<lparr>dims_x = 4, dims_p = 2, dims_be = 1\<rparr>,
         state_x = [1, 2, 3, 7], state_y = [5]\<rparr>\<rparr>\<rparr>"

definition demo_conditions :: EquilibriumConditions where
  "demo_conditions =
     \<lparr>conditions_specs = defaultEquilibriumSpecs demo_system,
      conditions_values = [(''P'', 100000), (''T'', 300)]\<rparr>"

text \<open>The solver of the instance after a first use, which has set the dimensions.\<close>

definition demo_impl_used :: Impl where
  "demo_impl_used = demo_impl\<lparr>optdims := \<lparr>dims_x = 4, dims_p = 2, dims_be = 1\<rparr>\<rparr>"

text \<open>The result of the objective function after an evaluation at \<open>[1, 2, 3, 0]\<close>.\<close>

definition demo_objective_result_ok :: ObjectiveResult where
  "demo_objective_result_ok =
     \<lparr>obj_f = 6, obj_fx = [1, 1, 1, 1], obj_fxx = [], obj_fxp = [], obj_succeeded = True\<rparr>"

text \<open>An embedded file system with the three databases, and a parser that keeps the text.\<close>

definition demo_fs :: embedded_filesystem where
  "demo_fs =
     [''databases/nasa/cea.dat'' \<mapsto> ''cea data'',
      ''databases/nasa/cea-improved.dat'' \<mapsto> ''cea-improved data'',
      ''databases/nasa/burcat.dat'' \<mapsto> ''burcat data'']"

definition demo_utils :: "(string, string, string list) NasaUtils" where
  "demo_utils =
     \<lparr>createTextLines = (\<lambda>s. [s]), createNasaSpeciesVector = (\<lambda>ls. Inr ls),
      convertSpecies = (\<lambda>n. Inr n), NasaDatabase_new = [], addSpecies = (\<lambda>s d. d @ [s])\<rparr>"

section \<open>Verification: the options of the solver\<close>

lemma setOptions_raises:
  "fst (setOptions impl opts) =
     (if epsilon opts \<le> 0
      then Some (RuntimeError ''EquilibriumOptions::epsilon cannot be zero or negative.'')
      else None)"
  by (simp add: setOptions_def error_def setup_setOptions_def Let_def)

text \<open>
  Claim C5. For every options record, \<open>setOptions(options)\<close> raises an error if and only if the
  tolerance \<open>epsilon\<close> is not strictly positive, that is \<open>epsilon \<le> 0\<close>.
\<close>

theorem setOptions_fails_iff_epsilon_not_positive:
  "(\<exists>e. fst (setOptions impl opts) = Some e) \<longleftrightarrow> epsilon opts \<le> 0"
  by (simp add: setOptions_raises)

theorem setOptions_fails_iff_epsilon_not_positive_witness:
  "fst (setOptions demo_impl (demo_options 0 True)) =
     Some (RuntimeError ''EquilibriumOptions::epsilon cannot be zero or negative.'')
   \<and> fst (setOptions demo_impl (demo_options (1 / 2) True)) = None"
  using setOptions_fails_iff_epsilon_not_positive [of demo_impl "demo_options 0 True"]
    setOptions_fails_iff_epsilon_not_positive [of demo_impl "demo_options (1 / 2) True"]
  by (simp add: setOptions_raises demo_options_def)

text \<open>
  Claim C10. \<open>setOptions\<close> stores the options in the solver and passes them to the problem
  setup before it checks \<open>epsilon\<close>: after a call that fails because \<open>epsilon \<le> 0\<close>, the
  options of the solver and of its setup are the rejected ones, not the previous ones.
\<close>

theorem setOptions_keeps_rejected_options:
  "epsilon opts \<le> 0 \<Longrightarrow>
   setOptions impl opts =
     (Some (RuntimeError ''EquilibriumOptions::epsilon cannot be zero or negative.''),
      impl\<lparr>options := opts, eqsetup := (eqsetup impl)\<lparr>setup_options := opts\<rparr>\<rparr>)"
  by (simp add: setOptions_def error_def setup_setOptions_def Let_def)

theorem setOptions_keeps_rejected_options_witness:
  "epsilon (options demo_impl) = 1
   \<and> fst (setOptions demo_impl (demo_options (- 1) False)) \<noteq> None
   \<and> epsilon (options (snd (setOptions demo_impl (demo_options (- 1) False)))) = - 1
   \<and> epsilon (setup_options (eqsetup (snd (setOptions demo_impl (demo_options (- 1) False))))) = - 1"
  using setOptions_keeps_rejected_options [of "demo_options (- 1) False" demo_impl]
  by (simp add: demo_options_def demo_impl_def)

section \<open>Verification: the callbacks of the optimization problem\<close>

lemma objective_returns_iff:
  "fst (objective S w res x p opts) = None \<longleftrightarrow>
     \<not> isl (evalObjectiveValue S x p w) \<and> \<not> isl (evalObjectiveGradX S x p w)
     \<and> (eval_fxx (obj_eval opts) \<longrightarrow> \<not> isl (evalObjectiveHessianX S x p w))
     \<and> (eval_fxp (obj_eval opts) \<longrightarrow> \<not> isl (evalObjectiveHessianP S x p w))"
  by (cases "evalObjectiveValue S x p w"; cases "evalObjectiveGradX S x p w";
      cases "evalObjectiveHessianX S x p w"; cases "evalObjectiveHessianP S x p w";
      simp add: objective_def Let_def)

lemma objective_succeeded:
  "obj_succeeded (snd (objective S w res x p opts)) =
     (fst (objective S w res x p opts) = None \<or> obj_succeeded res)"
  by (cases "evalObjectiveValue S x p w"; cases "evalObjectiveGradX S x p w";
      cases "evalObjectiveHessianX S x p w"; cases "evalObjectiveHessianP S x p w";
      simp add: objective_def Let_def)

lemma constraint_returns_iff:
  "fst (constraint S w res x p opts) = None \<longleftrightarrow>
     \<not> isl (evalEquationConstraints S x p w)
     \<and> (eval_ddx (con_eval opts) \<longrightarrow> \<not> isl (evalEquationConstraintsGradX S x p w))
     \<and> (eval_ddp (con_eval opts) \<longrightarrow> \<not> isl (evalEquationConstraintsGradP S x p w))"
  by (cases "evalEquationConstraints S x p w"; cases "evalEquationConstraintsGradX S x p w";
      cases "evalEquationConstraintsGradP S x p w"; simp add: constraint_def Let_def)

lemma constraint_succeeded:
  "con_succeeded (snd (constraint S w res x p opts)) =
     (fst (constraint S w res x p opts) = None \<or> con_succeeded res)"
  by (cases "evalEquationConstraints S x p w"; cases "evalEquationConstraintsGradX S x p w";
      cases "evalEquationConstraintsGradP S x p w"; simp add: constraint_def Let_def)

lemmas demo_callback_defs =
  objective_def demo_setup_def nonphysical_def demo_objective_result_def
  demo_objective_result_ok_def demo_objective_options_def Let_def

text \<open>
  Claim C1 says that the callbacks report an evaluation which the property model cannot
  complete as failed, that is, that they return with \<open>succeeded\<close> false. They do not. The
  property model of the instance fails at the composition \<open>[-1, 2, 3, 0]\<close>. The objective
  function called there with the result of an earlier, successful evaluation does not return:
  the exception of the property model leaves it, and the result still says \<open>succeeded\<close>.
\<close>

theorem callback_failure_not_reported:
  "evalObjectiveValue demo_setup [- 1, 2, 3, 0] [] [] = Inl (Thrown ''PropertyEvaluationFailed'')
   \<and> objective demo_setup [] demo_objective_result [1, 2, 3, 0] [] demo_objective_options =
       (None, demo_objective_result_ok)
   \<and> objective demo_setup [] demo_objective_result_ok [- 1, 2, 3, 0] [] demo_objective_options =
       (Some (Thrown ''PropertyEvaluationFailed''), demo_objective_result_ok)
   \<and> obj_succeeded demo_objective_result_ok"
  by (simp add: demo_callback_defs)

text \<open>
  Claim C1, amended. A callback returns if and only if every evaluation it asks of the
  problem setup returns; otherwise the exception of the failed evaluation leaves the callback.
  The only value a callback writes to \<open>succeeded\<close> is true, and it writes it whenever it
  returns: after a call \<open>succeeded\<close> holds if the call returned or if it held before. No call
  turns \<open>succeeded\<close> to false.
\<close>

theorem callbacks_return_succeeded_or_raise:
  "(fst (objective S w res x p opts) = None \<longleftrightarrow>
      \<not> isl (evalObjectiveValue S x p w) \<and> \<not> isl (evalObjectiveGradX S x p w)
      \<and> (eval_fxx (obj_eval opts) \<longrightarrow> \<not> isl (evalObjectiveHessianX S x p w))
      \<and> (eval_fxp (obj_eval opts) \<longrightarrow> \<not> isl (evalObjectiveHessianP S x p w)))
   \<and> obj_succeeded (snd (objective S w res x p opts)) =
       (fst (objective S w res x p opts) = None \<or> obj_succeeded res)
   \<and> (fst (constraint S w cres x p copts) = None \<longleftrightarrow>
      \<not> isl (evalEquationConstraints S x p w)
      \<and> (eval_ddx (con_eval copts) \<longrightarrow> \<not> isl (evalEquationConstraintsGradX S x p w))
      \<and> (eval_ddp (con_eval copts) \<longrightarrow> \<not> isl (evalEquationConstraintsGradP S x p w)))
   \<and> con_succeeded (snd (constraint S w cres x p copts)) =
       (fst (constraint S w cres x p copts) = None \<or> con_succeeded cres)"
  using objective_returns_iff [of S w res x p opts] objective_succeeded [of S w res x p opts]
    constraint_returns_iff [of S w cres x p copts] constraint_succeeded [of S w cres x p copts]
  by blast

theorem callbacks_return_succeeded_or_raise_witness:
  "fst (objective demo_setup [] demo_objective_result [1, 2, 3, 0] [] demo_objective_options) = None
   \<and> obj_succeeded (snd (objective demo_setup [] demo_objective_result [1, 2, 3, 0] []
         demo_objective_options))
   \<and> fst (objective demo_setup [] demo_objective_result [- 1, 2, 3, 0] [] demo_objective_options)
       = Some (Thrown ''PropertyEvaluationFailed'')
   \<and> \<not> obj_succeeded (snd (objective demo_setup [] demo_objective_result [- 1, 2, 3, 0] []
         demo_objective_options))"
  using callbacks_return_succeeded_or_raise [of demo_setup "[]" demo_objective_result
      "[1, 2, 3, 0]" "[]" demo_objective_options]
    callbacks_return_succeeded_or_raise [of demo_setup "[]" demo_objective_result
      "[- 1, 2, 3, 0]" "[]" demo_objective_options]
  by (simp add: demo_callback_defs)

section \<open>Verification: one equilibrium calculation\<close>

text \<open>
  Claim C2 says that a stored iterate of matching dimension is the starting point of the
  optimization. It is not, where the species amounts of the state differ from the iterate:
  the state of the instance stores an iterate with \<open>x = [1, 2, 3, 7]\<close> of the dimension of the
  solver and has the species amounts \<open>[10, 20, 30]\<close>; the optimization starts at
  \<open>x = [10, 20, 30, 7]\<close>.
\<close>

theorem stored_iterate_not_starting_point:
  "dims_x (state_dims (optimaState (equilibrium demo_state_warm))) = Nx (dims demo_impl)
   \<and> optimaState (equilibrium demo_state_warm) =
       \<lparr>state_dims = \<lparr>dims_x = 4, dims_p = 2, dims_be = 1\<rparr>,
        state_x = [1, 2, 3, 7], state_y = [5]\<rparr>
   \<and> speciesAmounts demo_state_warm = [10, 20, 30]
   \<and> starting_iterate demo_impl demo_state_warm =
       Inr \<lparr>state_dims = \<lparr>dims_x = 4, dims_p = 2, dims_be = 1\<rparr>,
            state_x = [10, 20, 30, 7], state_y = [5]\<rparr>
   \<and> starting_iterate demo_impl demo_state_warm \<noteq> Inr (optimaState (equilibrium demo_state_warm))"
  by (simp add: starting_iterate_def updateOptState_def assign_head_def OptimaState_new_def Let_def
      demo_impl_def demo_state_warm_def demo_dims_def)

text \<open>
  Claim C2, amended. Let the state have as many species amounts as the solver has species.
  If the state carries a stored iterate whose primal dimension equals \<open>Nx\<close>, the optimization
  starts from that iterate with the first \<open>Nn\<close> entries of its primal vector replaced by the
  current species amounts of the state. Otherwise it starts from a fresh iterate of the
  dimensions of the problem: the primal vector holds the current species amounts followed by
  zeros for the other primal variables.
\<close>

theorem updateOptState_starting_point:
  assumes "length (speciesAmounts state0) = Nn (dims impl)"
  shows "(dims_x (state_dims (optimaState (equilibrium state0))) = Nx (dims impl)
            \<and> Nn (dims impl) \<le> length (state_x (optimaState (equilibrium state0)))
          \<longrightarrow> updateOptState impl state0 =
                Inr (impl\<lparr>optstate := (optimaState (equilibrium state0))
                       \<lparr>state_x := speciesAmounts state0
                          @ drop (Nn (dims impl)) (state_x (optimaState (equilibrium state0)))\<rparr>\<rparr>))
         \<and> (dims_x (state_dims (optimaState (equilibrium state0))) \<noteq> Nx (dims impl)
            \<and> Nn (dims impl) \<le> dims_x (optdims impl)
          \<longrightarrow> updateOptState impl state0 =
                Inr (impl\<lparr>optstate := (OptimaState_new (optdims impl))
                       \<lparr>state_x := speciesAmounts state0
                          @ replicate (dims_x (optdims impl) - Nn (dims impl)) 0\<rparr>\<rparr>))"
  using assms by (simp add: updateOptState_def assign_head_def OptimaState_new_def Let_def)

theorem updateOptState_starting_point_witness:
  "starting_iterate demo_impl_used demo_state_warm =
     Inr \<lparr>state_dims = \<lparr>dims_x = 4, dims_p = 2, dims_be = 1\<rparr>,
          state_x = [10, 20, 30, 7], state_y = [5]\<rparr>
   \<and> starting_iterate demo_impl_used demo_state =
     Inr \<lparr>state_dims = \<lparr>dims_x = 4, dims_p = 2, dims_be = 1\<rparr>,
          state_x = [50, 2, 4, 0], state_y = [0]\<rparr>"
  using updateOptState_starting_point [of demo_state_warm demo_impl_used]
    updateOptState_starting_point [of demo_state demo_impl_used]
  by (simp add: starting_iterate_def demo_impl_used_def demo_impl_def demo_state_warm_def
      demo_state_def demo_dims_def OptimaState_new_def OptimaDims_new_def numeral_eq_Suc)

lemma updateChemicalState_eq:
  "updateChemicalState impl state =
     (if Nn (dims impl) \<le> length (state_x (optstate impl))
      then Inr (state\<lparr>speciesAmounts := take (Nn (dims impl)) (state_x (optstate impl)),
                      equilibrium := (equilibrium state)\<lparr>optimaState := optstate impl\<rparr>\<rparr>)
      else Inl EigenAssertion)"
  by (simp add: updateChemicalState_def head_def Let_def)

lemma updateOptProblem_dims:
  "updateOptProblem impl st c r = Inr impl1 \<Longrightarrow> dims impl1 = dims impl"
  by (auto simp: updateOptProblem_def Let_def split: sum.splits)

lemma updateOptState_dims: "updateOptState impl st = Inr impl1 \<Longrightarrow> dims impl1 = dims impl"
  by (auto simp: updateOptState_def Let_def split: sum.splits if_splits)

lemmas demo_solve_defs =
  solve_def updateOptProblem_def updateOptState_def updateChemicalState_def
  conditions_params_def demo_conditions_def defaultEquilibriumSpecs_def EquilibriumSpecs_new_def
  specs_temperature_def specs_pressure_def addControlVariable_def EquilibriumRestrictions_new_def
  assign_head_def head_def OptimaState_new_def OptimaDims_new_def OptimaProblem_new_def Let_def
  demo_impl_def demo_state_def demo_dims_def demo_optsolver_def objective_def demo_setup_def
  nonphysical_def demo_objective_result_def demo_objective_options_def demo_system_def

text \<open>
  Claim C3. A call of \<open>solve\<close> returns exactly when the problem and the starting iterate could
  be set up, the optimizer returned some result \<open>r\<close> and final iterate \<open>s\<close>, and \<open>s\<close> has at
  least \<open>Nn\<close> primal entries. Then, whatever \<open>r\<close> says about convergence, the chemical state
  returned has the first \<open>Nn\<close> entries of the primal vector of \<open>s\<close> as its species amounts and
  the whole of \<open>s\<close> as its stored iterate.
\<close>

theorem solve_writes_back_final_iterate:
  "solve impl state0 conditions restrictions = Inr (result, state1, impl3) \<longleftrightarrow>
     (\<exists>impl1 impl2 r s.
        updateOptProblem impl state0 conditions restrictions = Inr impl1
        \<and> updateOptState impl1 state0 = Inr impl2
        \<and> optsolver impl2 (optproblem impl2) (optstate impl2) = Inr (r, s)
        \<and> Nn (dims impl) \<le> length (state_x s)
        \<and> result = \<lparr>result_optima = r\<rparr>
        \<and> impl3 = impl2\<lparr>optstate := s\<rparr>
        \<and> state1 = state0\<lparr>speciesAmounts := take (Nn (dims impl)) (state_x s),
                           equilibrium := (equilibrium state0)\<lparr>optimaState := s\<rparr>\<rparr>)"
  (is "?L \<longleftrightarrow> ?R")
proof
  assume L: ?L
  then obtain impl1 where 1: "updateOptProblem impl state0 conditions restrictions = Inr impl1"
    by (auto simp: solve_def split: sum.splits)
  with L obtain impl2 where 2: "updateOptState impl1 state0 = Inr impl2"
    by (auto simp: solve_def split: sum.splits)
  with L 1 obtain r s where 3: "optsolver impl2 (optproblem impl2) (optstate impl2) = Inr (r, s)"
    by (auto simp: solve_def split: sum.splits)
  have d: "dims impl2 = dims impl"
    using 1 2 by (simp add: updateOptProblem_dims updateOptState_dims)
  from L 1 2 3 d show ?R
    by (auto simp: solve_def updateChemicalState_eq Let_def split: if_splits)
next
  assume ?R
  then obtain impl1 impl2 r s where
    1: "updateOptProblem impl state0 conditions restrictions = Inr impl1"
    and 2: "updateOptState impl1 state0 = Inr impl2"
    and 3: "optsolver impl2 (optproblem impl2) (optstate impl2) = Inr (r, s)"
    and 4: "Nn (dims impl) \<le> length (state_x s)"
    and 5: "result = \<lparr>result_optima = r\<rparr>" "impl3 = impl2\<lparr>optstate := s\<rparr>"
      "state1 = state0\<lparr>speciesAmounts := take (Nn (dims impl)) (state_x s),
                           equilibrium := (equilibrium state0)\<lparr>optimaState := s\<rparr>\<rparr>"
    by blast
  have d: "dims impl2 = dims impl"
    using 1 2 by (simp add: updateOptProblem_dims updateOptState_dims)
  show ?L
    using 1 2 3 4 5 d by (simp add: solve_def updateChemicalState_eq Let_def)
qed

text \<open>
  On the instance the optimizer does not converge, and the halved amounts and the final
  iterate are in the state that \<open>solve\<close> returns.
\<close>

theorem solve_writes_back_final_iterate_witness:
  "\<exists>impl3. solve demo_impl demo_state demo_conditions (EquilibriumRestrictions_new demo_system) =
     Inr (\<lparr>result_optima = \<lparr>opt_succeeded = False, opt_iterations = 1\<rparr>\<rparr>,
          demo_state\<lparr>speciesAmounts := [25, 1, 2],
            equilibrium := \<lparr>optimaState =
              \<lparr>state_dims = \<lparr>dims_x = 4, dims_p = 2, dims_be = 1\<rparr>,
               state_x = [25, 1, 2, 0], state_y = [0]\<rparr>\<rparr>\<rparr>,
          impl3)"
  apply (rule exI)
  apply (rule solve_writes_back_final_iterate [THEN iffD2])
  apply (intro exI conjI)
        apply (simp add: demo_solve_defs)
       apply (simp add: demo_solve_defs numeral_eq_Suc)
      apply (simp add: demo_solve_defs numeral_eq_Suc)
     apply (simp add: demo_solve_defs)
    apply simp
   apply (rule refl)
  apply (simp add: demo_solve_defs)
  done

lemma conditions_built:
  assumes "''T'' \<in> set (controlVariables s)" "''P'' \<in> set (controlVariables s)"
  shows "\<exists>c1 c2. conditions_temperature t (EquilibriumConditions_new s) = Inr c1
      \<and> conditions_pressure q c1 = Inr c2
      \<and> conditions_specs c2 = s
      \<and> conditions_values c2 = [(''P'', q), (''T'', t)]"
  using assms
  by (simp add: conditions_temperature_def conditions_pressure_def conditions_set_def
      EquilibriumConditions_new_def)

text \<open>
  Claim C4. \<open>solve(state, conditions)\<close> is \<open>solve(state, conditions, restrictions)\<close> with
  restrictions that restrict nothing. For a solver whose specifications declare temperature
  and pressure, \<open>solve(state)\<close> is \<open>solve(state, conditions, restrictions)\<close> with the same
  restrictions and with conditions, for the specifications of the solver, whose only values
  are the temperature and the pressure of the state.
\<close>

theorem solve_overloads_delegate:
  "solve_conditions impl state0 conditions =
     solve impl state0 conditions (EquilibriumRestrictions_new (system impl))
   \<and> restricted (EquilibriumRestrictions_new (system impl)) = []
   \<and> (''T'' \<in> set (controlVariables (specs impl)) \<and> ''P'' \<in> set (controlVariables (specs impl)) \<longrightarrow>
        (\<exists>c. conditions_specs c = specs impl
           \<and> conditions_values c = [(''P'', pressure state0), (''T'', temperature state0)]
           \<and> solve_state impl state0 =
               solve impl state0 c (EquilibriumRestrictions_new (system impl))))"
proof (intro conjI impI)
  show "solve_conditions impl state0 conditions =
     solve impl state0 conditions (EquilibriumRestrictions_new (system impl))"
    by (simp add: solve_conditions_def)
  show "restricted (EquilibriumRestrictions_new (system impl)) = []"
    by (simp add: EquilibriumRestrictions_new_def)
next
  assume "''T'' \<in> set (controlVariables (specs impl)) \<and> ''P'' \<in> set (controlVariables (specs impl))"
  then obtain c1 c2 where
    "conditions_temperature (temperature state0) (EquilibriumConditions_new (specs impl)) = Inr c1"
    "conditions_pressure (pressure state0) c1 = Inr c2"
    "conditions_specs c2 = specs impl"
    "conditions_values c2 = [(''P'', pressure state0), (''T'', temperature state0)]"
    using conditions_built [of "specs impl" "temperature state0" "pressure state0"] by blast
  then show "\<exists>c. conditions_specs c = specs impl
           \<and> conditions_values c = [(''P'', pressure state0), (''T'', temperature state0)]
           \<and> solve_state impl state0 =
               solve impl state0 c (EquilibriumRestrictions_new (system impl))"
    by (intro exI [of _ c2]) (simp add: solve_state_def solve_conditions_def)
qed

theorem solve_overloads_delegate_witness:
  "solve_state demo_impl demo_state =
     solve demo_impl demo_state demo_conditions (EquilibriumRestrictions_new demo_system)
   \<and> solve_conditions demo_impl demo_state demo_conditions =
     solve demo_impl demo_state demo_conditions (EquilibriumRestrictions_new demo_system)"
proof -
  have declared: "''T'' \<in> set (controlVariables (specs demo_impl))
      \<and> ''P'' \<in> set (controlVariables (specs demo_impl))"
    by (simp add: demo_impl_def defaultEquilibriumSpecs_def EquilibriumSpecs_new_def
        specs_temperature_def specs_pressure_def addControlVariable_def)
  have sys: "system demo_impl = demo_system"
    by (simp add: demo_impl_def)
  from solve_overloads_delegate [of demo_impl demo_state demo_conditions] declared
  obtain c where c: "conditions_specs c = specs demo_impl"
    "conditions_values c = [(''P'', pressure demo_state), (''T'', temperature demo_state)]"
    "solve_state demo_impl demo_state =
       solve demo_impl demo_state c (EquilibriumRestrictions_new (system demo_impl))"
    by blast
  from c(1,2) have "c = demo_conditions"
    by (simp add: demo_conditions_def demo_impl_def demo_state_def)
  with c(3) sys solve_overloads_delegate [of demo_impl demo_state demo_conditions]
  show ?thesis by simp
qed

section \<open>Verification: the construction of the solver\<close>

lemma setOptions_specs: "specs (snd (setOptions impl opts)) = specs impl"
  "system (snd (setOptions impl opts)) = system impl"
  by (simp_all add: setOptions_def error_def Let_def)

lemma Impl_new_specs:
  assumes "Impl_new K s = Inr impl"
  shows "specs impl = s \<and> system impl = specs_system s"
proof -
  from assms obtain d where d: "EquilibriumDims_new K s = Inr d"
    by (auto simp: Impl_new_def split: sum.splits)
  define impl0 where "impl0 = \<lparr>system = specs_system s, specs = s, dims = d,
                      eqsetup = EquilibriumSetup_new K s,
                      options = EquilibriumOptions_new K, n0 = [],
                      optdims = OptimaDims_new,
                      optproblem = OptimaProblem_new OptimaDims_new,
                      optstate = OptimaState_new OptimaDims_new,
                      optsolver = OptimaSolver_new K\<rparr>"
  have "impl = snd (setOptions impl0 (options impl0))"
    using assms d unfolding Impl_new_def impl0_def
    by (auto simp: Let_def split: prod.splits option.splits)
  then show ?thesis by (simp add: setOptions_specs impl0_def)
qed

lemma Impl_new_returns:
  "(\<exists>impl. Impl_new K s = Inr impl) \<longleftrightarrow>
     \<not> isl (EquilibriumDims_new K s) \<and> 0 < epsilon (EquilibriumOptions_new K)"
proof (cases "EquilibriumDims_new K s")
  case (Inl e)
  then show ?thesis by (simp add: Impl_new_def)
next
  case (Inr d)
  define impl0 where "impl0 = \<lparr>system = specs_system s, specs = s, dims = d,
                      eqsetup = EquilibriumSetup_new K s,
                      options = EquilibriumOptions_new K, n0 = [],
                      optdims = OptimaDims_new,
                      optproblem = OptimaProblem_new OptimaDims_new,
                      optstate = OptimaState_new OptimaDims_new,
                      optsolver = OptimaSolver_new K\<rparr>"
  have "fst (setOptions impl0 (options impl0)) = None \<longleftrightarrow> 0 < epsilon (EquilibriumOptions_new K)"
    by (simp add: setOptions_raises impl0_def)
  then show ?thesis
    using Inr unfolding Impl_new_def impl0_def [symmetric]
    by (cases "setOptions impl0 (options impl0)") (auto simp: Let_def impl0_def [symmetric] split: option.splits)
qed

lemma default_controls: "controlVariables (defaultEquilibriumSpecs sys) = [''T'', ''P'']"
  "specs_system (defaultEquilibriumSpecs sys) = sys"
  by (simp_all add: defaultEquilibriumSpecs_def EquilibriumSpecs_new_def specs_temperature_def
      specs_pressure_def addControlVariable_def Let_def)

text \<open>
  Claim C6. The construction of a solver from a chemical system returns when the dimensions
  can be derived and the default tolerance is positive. The solver constructed uses the
  specifications of \<open>defaultEquilibriumSpecs\<close>, a new specification of the system on which
  \<open>temperature()\<close> and \<open>pressure()\<close> were called: temperature and pressure are among its
  control variables.
\<close>

theorem default_solver_specs:
  "((\<exists>impl. EquilibriumSolver_system K sys = Inr impl) \<longleftrightarrow>
      \<not> isl (EquilibriumDims_new K (defaultEquilibriumSpecs sys)) \<and> 0 < epsilon (EquilibriumOptions_new K))
   \<and> (\<forall>impl. EquilibriumSolver_system K sys = Inr impl \<longrightarrow>
        specs impl = specs_pressure (specs_temperature (EquilibriumSpecs_new sys))
        \<and> system impl = sys
        \<and> ''T'' \<in> set (controlVariables (specs impl))
        \<and> ''P'' \<in> set (controlVariables (specs impl)))"
  unfolding EquilibriumSolver_system_def
  using Impl_new_specs [of K "defaultEquilibriumSpecs sys"] Impl_new_returns [of K "defaultEquilibriumSpecs sys"]
  by (auto simp: default_controls) (simp_all add: defaultEquilibriumSpecs_def Let_def)

theorem default_solver_specs_witness:
  "\<exists>impl. EquilibriumSolver_system demo_collaborators demo_system = Inr impl
     \<and> controlVariables (specs impl) = [''T'', ''P'']"
proof -
  have "\<exists>impl. EquilibriumSolver_system demo_collaborators demo_system = Inr impl"
    using default_solver_specs [of demo_collaborators demo_system]
    by (simp add: demo_collaborators_def demo_options_def)
  then obtain impl where i: "EquilibriumSolver_system demo_collaborators demo_system = Inr impl" ..
  with default_solver_specs [of demo_collaborators demo_system]
  have "specs impl = specs_pressure (specs_temperature (EquilibriumSpecs_new demo_system))" by blast
  then have "controlVariables (specs impl) = [''T'', ''P'']"
    by (simp add: EquilibriumSpecs_new_def specs_temperature_def specs_pressure_def addControlVariable_def)
  with i show ?thesis by blast
qed

section \<open>Verification: the embedded NASA databases\<close>

lemma oneof_set: "oneof a xs \<longleftrightarrow> a \<in> set xs"
  by (induction xs) auto

lemma getNasaDatabaseContent_eq:
  "getNasaDatabaseContent fs name =
     (if name \<in> {''cea'', ''cea-improved'', ''burcat''}
      then fs_open fs (''databases/nasa/'' @ name @ ''.dat'')
      else Inl (RuntimeError (unsupported_name_message name)))"
  by (auto simp add: getNasaDatabaseContent_def error_def)

text \<open>
  Claim C9. Let the embedded file system hold the three database files. Then
  \<open>getNasaDatabaseContent(name)\<close> fails if and only if \<open>name\<close> is none of \<open>cea\<close>,
  \<open>cea-improved\<close> and \<open>burcat\<close>, and \<open>withName(name)\<close> fails with that error for such a name.
  For each of the three names the content of the embedded file is loaded and \<open>withName\<close>
  goes on to read the database from it.
\<close>

theorem getNasaDatabaseContent_fails_iff_unsupported:
  assumes "\<forall>n \<in> {''cea'', ''cea-improved'', ''burcat''}. fs (''databases/nasa/'' @ n @ ''.dat'') \<noteq> None"
  shows "((\<exists>e. getNasaDatabaseContent fs name = Inl e) \<longleftrightarrow> name \<notin> {''cea'', ''cea-improved'', ''burcat''})
    \<and> (name \<notin> {''cea'', ''cea-improved'', ''burcat''} \<longrightarrow>
          withName U fs name = Inl (RuntimeError (unsupported_name_message name)))
    \<and> (name \<in> {''cea'', ''cea-improved'', ''burcat''} \<longrightarrow>
          (\<exists>content. fs (''databases/nasa/'' @ name @ ''.dat'') = Some content
             \<and> getNasaDatabaseContent fs name = Inr content
             \<and> withName U fs name = fromStream U content))"
proof (cases "name \<in> {''cea'', ''cea-improved'', ''burcat''}")
  case True
  with assms obtain content where c: "fs (''databases/nasa/'' @ name @ ''.dat'') = Some content"
    by blast
  then have "getNasaDatabaseContent fs name = Inr content"
    using True by (simp add: getNasaDatabaseContent_eq fs_open_def)
  with c True show ?thesis by (simp add: withName_def)
next
  case False
  then have "getNasaDatabaseContent fs name = Inl (RuntimeError (unsupported_name_message name))"
    by (simp add: getNasaDatabaseContent_eq)
  with False show ?thesis by (simp add: withName_def)
qed


theorem getNasaDatabaseContent_fails_iff_unsupported_witness:
  "withName demo_utils demo_fs ''burcat'' = Inr [''burcat data'']
   \<and> getNasaDatabaseContent demo_fs ''cea'' = Inr ''cea data''
   \<and> getNasaDatabaseContent demo_fs ''CEA'' = Inl (RuntimeError (unsupported_name_message ''CEA''))
   \<and> withName demo_utils demo_fs ''nasa'' = Inl (RuntimeError (unsupported_name_message ''nasa''))"
  using getNasaDatabaseContent_fails_iff_unsupported [of demo_fs "''burcat''" demo_utils] getNasaDatabaseContent_fails_iff_unsupported [of demo_fs "''cea''" demo_utils]
    getNasaDatabaseContent_fails_iff_unsupported [of demo_fs "''CEA''" demo_utils] getNasaDatabaseContent_fails_iff_unsupported [of demo_fs "''nasa''" demo_utils]
  by (simp add: demo_fs_def demo_utils_def fromStream_def getNasaDatabaseContent_eq)

end
